theory Spec2Isabelle
  imports Complex_Main
begin

section \<open>Data model of \<^verbatim>\<open>app/processor.py\<close>\<close>

text \<open>
  The processor works on job messages of Python type \<^verbatim>\<open>dict[str, Any]\<close>. A Python value
  is a \<open>pyval\<close>; a dictionary with string keys is a map from strings to values, so that two
  dictionaries are equal exactly when they hold the same keys with the same values (Python's
  \<^verbatim>\<open>==\<close> on dictionaries ignores insertion order as well).

  \<open>PFloat q\<close> is the float that the decimal literal \<open>q\<close> denotes in the source text. The
  program never computes with floats: it only stores the three literals of the placeholder
  metrics.
\<close>

datatype pyval =
    PNone
  | PBool bool
  | PInt int
  | PFloat rat
  | PStr string
  | PList "pyval list"
  | PDict "string \<Rightarrow> pyval option"

type_synonym message = "string \<rightharpoonup> pyval"

text \<open>
  The exceptions that the module's statements can raise:
  \<^item> \<open>ValueError msg\<close>: \<^verbatim>\<open>raise ValueError("Invalid message format")\<close> at line 33, with its
    argument;
  \<^item> \<open>AttributeError name\<close>: an attribute lookup \<^verbatim>\<open>value.name\<close> on a value that has no such
    attribute, as \<^verbatim>\<open>message.get\<close> at lines 47 to 49 when the value is no dictionary;
  \<^item> \<open>TypeError_not_a_mapping\<close>: the unpacking \<^verbatim>\<open>**value\<close> at line 66 of a value that is no
    mapping.
\<close>

datatype error = ValueError string | AttributeError string | TypeError_not_a_mapping

text \<open>
  The module logs through \<^verbatim>\<open>logger\<close>. One constructor per call site, holding the arguments
  that the call passes after its format string:
  \<^item> \<open>Debug_validating\<close>: \<^verbatim>\<open>logger.debug\<close> at line 30,
  \<^item> \<open>Error_invalid_schema message\<close>: \<^verbatim>\<open>logger.error\<close> at line 32,
  \<^item> \<open>Info_running job_id symbol strategy\<close>: \<^verbatim>\<open>logger.info\<close> at line 50,
  \<^item> \<open>Debug_result job_id result\<close>: \<^verbatim>\<open>logger.debug\<close> at line 65.
  The log is the list of records emitted so far, oldest first; every function takes the log
  and returns it extended.
\<close>

datatype log_record =
    Debug_validating
  | Error_invalid_schema message
  | Info_running pyval pyval pyval
  | Debug_result pyval message

type_synonym log = "log_record list"

text \<open>\<^verbatim>\<open>d.get(key, default)\<close>: the stored value when the key is present, else the default.\<close>

definition dict_get :: "message \<Rightarrow> string \<Rightarrow> pyval \<Rightarrow> pyval" where
  "dict_get d k dflt = (case d k of Some v \<Rightarrow> v | None \<Rightarrow> dflt)"

section \<open>The message validator\<close>

text \<open>
  \<^verbatim>\<open>validate_message_schema\<close> is imported from \<^verbatim>\<open>app.utils.validate_data\<close>; it is the first
  parameter of the model, a function from the message to a boolean.
\<close>

definition validate_input_message ::
  "(message \<Rightarrow> bool) \<Rightarrow> message \<Rightarrow> log \<Rightarrow> (error + message) \<times> log" where
  "validate_input_message validate_message_schema message lg =
     (let lg1 = lg @ [Debug_validating] in
      if \<not> validate_message_schema message
      then (Inl (ValueError ''Invalid message format''), lg1 @ [Error_invalid_schema message])
      else (Inr message, lg1))"

text \<open>
  Modelled from the spec: \<^verbatim>\<open>validate_message_schema\<close> itself is not part of the module. The
  spec expects a job message "to contain at minimum \<^verbatim>\<open>job_id\<close>, \<^verbatim>\<open>strategy\<close>, and
  \<^verbatim>\<open>symbol\<close>"; this checker accepts exactly the messages that hold the three keys. It serves
  as the concrete schema at which the general theorems are instantiated.
\<close>

definition has_required_fields :: "message \<Rightarrow> bool" where
  "has_required_fields message =
     (message ''job_id'' \<noteq> None \<and> message ''strategy'' \<noteq> None \<and> message ''symbol'' \<noteq> None)"

section \<open>The job runner\<close>

text \<open>The dictionary literal of lines 58 to 62.\<close>

definition placeholder_metrics :: "string \<rightharpoonup> pyval" where
  "placeholder_metrics =
     [''return_pct'' \<mapsto> PFloat 12.4, ''sharpe_ratio'' \<mapsto> PFloat 1.7,
      ''max_drawdown'' \<mapsto> PFloat (- 4.8)]"

text \<open>The dictionary literal \<^verbatim>\<open>result\<close> of lines 53 to 63, from the three values read.\<close>

definition job_result :: "pyval \<Rightarrow> pyval \<Rightarrow> pyval \<Rightarrow> message" where
  "job_result job_id symbol strategy =
     [''job_id'' \<mapsto> job_id, ''symbol'' \<mapsto> symbol, ''strategy'' \<mapsto> strategy,
      ''status'' \<mapsto> PStr ''completed'', ''metrics'' \<mapsto> PDict placeholder_metrics]"

text \<open>
  \<^verbatim>\<open>{**message, **result}\<close> is \<open>message ++ result\<close>: the keys of both, and the value of
  \<open>result\<close> where both have the key.
\<close>

definition run_backtest_job :: "message \<Rightarrow> log \<Rightarrow> message \<times> log" where
  "run_backtest_job message lg =
     (let job_id = dict_get message ''job_id'' (PStr ''unknown'');
          strategy = dict_get message ''strategy'' (PStr ''unspecified'');
          symbol = dict_get message ''symbol'' (PStr ''UNKNOWN'');
          lg1 = lg @ [Info_running job_id symbol strategy];
          result = job_result job_id symbol strategy;
          lg2 = lg1 @ [Debug_result job_id result]
      in (message ++ result, lg2))"

text \<open>
  Python does not check the annotation \<^verbatim>\<open>message: ValidatedMessage\<close> when the function is
  called, so the body of \<^verbatim>\<open>run_backtest_job\<close> can be handed any value. The next three
  definitions follow the body statement by statement on an arbitrary \<open>pyval\<close>, with every
  step that can raise returning a sum.

  \<^verbatim>\<open>value.get(key, default)\<close>: of the values of \<open>pyval\<close> only a dictionary has the method
  \<^verbatim>\<open>get\<close>; on every other value the attribute lookup raises.
\<close>

fun method_get :: "pyval \<Rightarrow> string \<Rightarrow> pyval \<Rightarrow> error + pyval" where
  "method_get (PDict d) k dflt = Inr (dict_get d k dflt)"
| "method_get PNone k dflt = Inl (AttributeError ''get'')"
| "method_get (PBool b) k dflt = Inl (AttributeError ''get'')"
| "method_get (PInt i) k dflt = Inl (AttributeError ''get'')"
| "method_get (PFloat q) k dflt = Inl (AttributeError ''get'')"
| "method_get (PStr t) k dflt = Inl (AttributeError ''get'')"
| "method_get (PList vs) k dflt = Inl (AttributeError ''get'')"

text \<open>\<^verbatim>\<open>**value\<close> inside a dictionary display: the items of a dictionary, else an error.\<close>

fun unpack_mapping :: "pyval \<Rightarrow> error + message" where
  "unpack_mapping (PDict d) = Inr d"
| "unpack_mapping PNone = Inl TypeError_not_a_mapping"
| "unpack_mapping (PBool b) = Inl TypeError_not_a_mapping"
| "unpack_mapping (PInt i) = Inl TypeError_not_a_mapping"
| "unpack_mapping (PFloat q) = Inl TypeError_not_a_mapping"
| "unpack_mapping (PStr t) = Inl TypeError_not_a_mapping"
| "unpack_mapping (PList vs) = Inl TypeError_not_a_mapping"

text \<open>
  Lines 47 to 66 on an arbitrary value, in the order of the source: the three reads, the
  info record, the \<^verbatim>\<open>result\<close> literal, the debug record, the merge. The first step that
  raises ends the run with its error and with the log as it stands at that point.
\<close>

definition run_backtest_job_any :: "pyval \<Rightarrow> log \<Rightarrow> (error + message) \<times> log" where
  "run_backtest_job_any message lg =
     (case method_get message ''job_id'' (PStr ''unknown'') of
        Inl e \<Rightarrow> (Inl e, lg)
      | Inr job_id \<Rightarrow>
     (case method_get message ''strategy'' (PStr ''unspecified'') of
        Inl e \<Rightarrow> (Inl e, lg)
      | Inr strategy \<Rightarrow>
     (case method_get message ''symbol'' (PStr ''UNKNOWN'') of
        Inl e \<Rightarrow> (Inl e, lg)
      | Inr symbol \<Rightarrow>
        (let lg1 = lg @ [Info_running job_id symbol strategy];
             result = job_result job_id symbol strategy;
             lg2 = lg1 @ [Debug_result job_id result]
         in (case unpack_mapping message of
               Inl e \<Rightarrow> (Inl e, lg2)
             | Inr items \<Rightarrow> (Inr (items ++ result), lg2))))))"

text \<open>The message of the spec's worked example.\<close>

definition example_message :: message where
  "example_message =
     [''job_id'' \<mapsto> PStr ''j1'', ''strategy'' \<mapsto> PStr ''sma'', ''symbol'' \<mapsto> PStr ''AAPL'']"

text \<open>
  Two messages that the three-key schema rejects (neither has \<^verbatim>\<open>strategy\<close> or \<^verbatim>\<open>symbol\<close>),
  with different job identifiers.
\<close>

definition rejected_message_1 :: message where
  "rejected_message_1 = [''job_id'' \<mapsto> PStr ''j1'']"

definition rejected_message_2 :: message where
  "rejected_message_2 = [''job_id'' \<mapsto> PStr ''j2'']"

text \<open>
  A message whose keys collide with the runner's: it already holds \<^verbatim>\<open>status\<close> and
  \<^verbatim>\<open>metrics\<close>, and an extra key \<^verbatim>\<open>window\<close> that the runner does not know.
\<close>

definition colliding_message :: message where
  "colliding_message =
     [''job_id'' \<mapsto> PStr ''j7'', ''status'' \<mapsto> PStr ''pending'', ''metrics'' \<mapsto> PNone,
      ''window'' \<mapsto> PInt 20]"

section \<open>Auxiliary facts\<close>

lemma example_message_valid: "has_required_fields example_message"
  by (simp add: has_required_fields_def example_message_def)

lemma rejected_message_1_invalid: "\<not> has_required_fields rejected_message_1"
  by (simp add: has_required_fields_def rejected_message_1_def)

lemma rejected_message_2_invalid: "\<not> has_required_fields rejected_message_2"
  by (simp add: has_required_fields_def rejected_message_2_def)

lemma rejected_messages_differ: "rejected_message_1 \<noteq> rejected_message_2"
proof
  assume "rejected_message_1 = rejected_message_2"
  then have "rejected_message_1 ''job_id'' = rejected_message_2 ''job_id''"
    by simp
  then show False
    by (simp add: rejected_message_1_def rejected_message_2_def)
qed

text \<open>The returned dictionary, without the log.\<close>

lemma run_result:
  "fst (run_backtest_job message lg) =
     message ++ job_result (dict_get message ''job_id'' (PStr ''unknown''))
                           (dict_get message ''symbol'' (PStr ''UNKNOWN''))
                           (dict_get message ''strategy'' (PStr ''unspecified''))"
  by (simp add: run_backtest_job_def Let_def)

text \<open>Looking a key up in the \<^verbatim>\<open>result\<close> literal.\<close>

lemma job_result_apply:
  "job_result j s t k =
     (if k = ''metrics'' then Some (PDict placeholder_metrics)
      else if k = ''status'' then Some (PStr ''completed'')
      else if k = ''strategy'' then Some t
      else if k = ''symbol'' then Some s
      else if k = ''job_id'' then Some j
      else None)"
  unfolding job_result_def by simp

lemma dom_job_result:
  "dom (job_result j s t) = {''job_id'', ''symbol'', ''strategy'', ''status'', ''metrics''}"
  unfolding job_result_def by auto

lemma dom_run_result:
  "dom (fst (run_backtest_job message lg)) =
     dom message \<union> {''job_id'', ''symbol'', ''strategy'', ''status'', ''metrics''}"
  unfolding run_result dom_map_add dom_job_result by (rule Un_commute)

lemma run_result_status:
  "fst (run_backtest_job message lg) ''status'' = Some (PStr ''completed'')"
  by (simp add: run_result job_result_apply)

lemma run_result_metrics:
  "fst (run_backtest_job message lg) ''metrics'' = Some (PDict placeholder_metrics)"
  by (simp add: run_result job_result_apply)

lemma run_result_kept:
  assumes "message k = Some v" and "k \<noteq> ''status''" and "k \<noteq> ''metrics''"
  shows "fst (run_backtest_job message lg) k = Some v"
proof -
  consider "k = ''job_id''" | "k = ''symbol''" | "k = ''strategy''"
    | "k \<noteq> ''job_id''" "k \<noteq> ''symbol''" "k \<noteq> ''strategy''"
    by blast
  then show ?thesis
  proof cases
    case 1
    with assms(1) show ?thesis
      by (simp add: run_result job_result_apply dict_get_def map_add_def)
  next
    case 2
    with assms(1) show ?thesis
      by (simp add: run_result job_result_apply dict_get_def map_add_def)
  next
    case 3
    with assms(1) show ?thesis
      by (simp add: run_result job_result_apply dict_get_def map_add_def)
  next
    case 4
    with assms show ?thesis
      unfolding run_result map_add_def job_result_apply by simp
  qed
qed

text \<open>
  The error channel of the runner is live: a value that is no dictionary, here \<^verbatim>\<open>None\<close>,
  makes the first read raise, before anything is logged.
\<close>

lemma run_backtest_job_any_raises_on_none:
  "run_backtest_job_any PNone lg = (Inl (AttributeError ''get''), lg)"
  by (simp add: run_backtest_job_any_def)

text \<open>On a dictionary the body run on an arbitrary value is the typed runner.\<close>

lemma run_backtest_job_any_dict:
  "run_backtest_job_any (PDict message) lg =
     (Inr (fst (run_backtest_job message lg)), snd (run_backtest_job message lg))"
  by (simp add: run_backtest_job_any_def run_backtest_job_def Let_def)

section \<open>Properties of the validator\<close>

text \<open>
  Claim C1. For every message that passes schema validation, that is, on which
  \<^verbatim>\<open>validate_message_schema\<close> returns true, \<^verbatim>\<open>validate_input_message\<close> returns exactly the
  input message, unmodified. This holds for every schema checker and every earlier log.
\<close>

theorem validate_input_message_returns_input:
  "validate_message_schema message \<Longrightarrow>
     fst (validate_input_message validate_message_schema message lg) = Inr message"
  by (simp add: validate_input_message_def Let_def)

theorem validate_input_message_returns_input_witness:
  "has_required_fields example_message \<and>
   fst (validate_input_message has_required_fields example_message []) = Inr example_message"
  using validate_input_message_returns_input [of has_required_fields example_message "[]"]
    example_message_valid
  by simp

text \<open>
  Claim C2. For every message on which schema validation fails, \<^verbatim>\<open>validate_input_message\<close>
  raises the invalid-format error, which in the source is
  \<^verbatim>\<open>ValueError("Invalid message format")\<close>, and returns no result; conversely, when validation
  succeeds no error is raised. The outcome is a sum: \<open>Inl\<close> is the raised error and \<open>Inr\<close> the
  returned message, so an outcome that is \<open>Inl\<close> returns nothing.
\<close>

theorem validate_input_message_raises_iff_invalid:
  "(\<not> validate_message_schema message \<longrightarrow>
      fst (validate_input_message validate_message_schema message lg)
        = Inl (ValueError ''Invalid message format'')) \<and>
   (validate_message_schema message \<longrightarrow>
      \<not> isl (fst (validate_input_message validate_message_schema message lg)))"
  by (simp add: validate_input_message_def Let_def)

theorem validate_input_message_raises_iff_invalid_witness:
  "\<not> has_required_fields rejected_message_1 \<and>
   fst (validate_input_message has_required_fields rejected_message_1 [])
     = Inl (ValueError ''Invalid message format'') \<and>
   has_required_fields example_message \<and>
   \<not> isl (fst (validate_input_message has_required_fields example_message []))"
  using validate_input_message_raises_iff_invalid [of has_required_fields rejected_message_1 "[]"]
    validate_input_message_raises_iff_invalid [of has_required_fields example_message "[]"]
    rejected_message_1_invalid example_message_valid
  by simp

text \<open>
  Claim C7, as stated, fails: the error raised for a rejected message does not carry the
  message. The two rejected messages below differ, and the error raised for the one is the
  error raised for the other, so the message cannot be read back from the error.
\<close>

theorem invalid_format_error_loses_payload:
  "\<not> has_required_fields rejected_message_1 \<and>
   \<not> has_required_fields rejected_message_2 \<and>
   rejected_message_1 \<noteq> rejected_message_2 \<and>
   fst (validate_input_message has_required_fields rejected_message_1 [])
     = fst (validate_input_message has_required_fields rejected_message_2 [])"
  using rejected_message_1_invalid rejected_message_2_invalid rejected_messages_differ
  by (simp add: validate_input_message_def Let_def)

text \<open>
  Claim C7, amended. When schema validation fails, the raised error is
  \<^verbatim>\<open>ValueError("Invalid message format")\<close>, the same value for every rejected message; the
  rejected message is carried by the error-level log record that is emitted just before the
  error is raised, and that record is the last one of the log.
\<close>

theorem validate_input_message_logs_rejected_payload:
  "\<not> validate_message_schema message \<Longrightarrow>
     validate_input_message validate_message_schema message lg
       = (Inl (ValueError ''Invalid message format''),
          lg @ [Debug_validating, Error_invalid_schema message])"
  by (simp add: validate_input_message_def Let_def)

theorem validate_input_message_logs_rejected_payload_witness:
  "\<not> has_required_fields rejected_message_1 \<and>
   validate_input_message has_required_fields rejected_message_1 []
     = (Inl (ValueError ''Invalid message format''),
        [Debug_validating, Error_invalid_schema rejected_message_1])"
  using validate_input_message_logs_rejected_payload
      [of has_required_fields rejected_message_1 "[]"]
    rejected_message_1_invalid
  by simp

section \<open>Properties of the job runner\<close>

text \<open>
  Claim C3. For every input message, the mapping returned by \<^verbatim>\<open>run_backtest_job\<close> contains
  all keys of the input message plus the keys \<^verbatim>\<open>status\<close> and \<^verbatim>\<open>metrics\<close>, and on a key
  collision the \<^verbatim>\<open>status\<close> and \<^verbatim>\<open>metrics\<close> values produced by the job runner take precedence
  over the input's values for those keys: whatever the input holds there, the result holds
  the runner's values.
\<close>

theorem run_backtest_job_keys_and_precedence:
  "dom message \<union> {''status'', ''metrics''} \<subseteq> dom (fst (run_backtest_job message lg)) \<and>
   fst (run_backtest_job message lg) ''status'' = Some (PStr ''completed'') \<and>
   fst (run_backtest_job message lg) ''metrics'' = Some (PDict placeholder_metrics)"
proof -
  have "''status'' \<in> dom (fst (run_backtest_job message lg))"
    and "''metrics'' \<in> dom (fst (run_backtest_job message lg))"
    by (simp_all add: run_result_status run_result_metrics domIff)
  moreover have "dom message \<subseteq> dom (fst (run_backtest_job message lg))"
    unfolding dom_run_result by (rule Un_upper1)
  ultimately show ?thesis
    by (simp add: run_result_status run_result_metrics)
qed

theorem run_backtest_job_keys_and_precedence_witness:
  "colliding_message ''status'' = Some (PStr ''pending'') \<and>
   colliding_message ''metrics'' = Some PNone \<and>
   ''window'' \<in> dom (fst (run_backtest_job colliding_message [])) \<and>
   fst (run_backtest_job colliding_message []) ''status'' = Some (PStr ''completed'') \<and>
   fst (run_backtest_job colliding_message []) ''metrics'' = Some (PDict placeholder_metrics)"
proof -
  have keys: "''window'' \<in> dom colliding_message"
    by (simp add: colliding_message_def)
  have held: "colliding_message ''status'' = Some (PStr ''pending'') \<and>
      colliding_message ''metrics'' = Some PNone"
    by (simp add: colliding_message_def)
  from run_backtest_job_keys_and_precedence [of colliding_message "[]"] keys held
  show ?thesis by blast
qed

text \<open>
  Claim C4. \<^verbatim>\<open>run_backtest_job\<close> applied to the message
  \<^verbatim>\<open>{"job_id":"j1","strategy":"sma","symbol":"AAPL"}\<close> returns exactly
  \<^verbatim>\<open>{"job_id":"j1","strategy":"sma","symbol":"AAPL","status":"completed",
  "metrics":{"return_pct":12.4,"sharpe_ratio":1.7,"max_drawdown":-4.8}}\<close>.
\<close>

theorem run_backtest_job_example:
  "fst (run_backtest_job
          [''job_id'' \<mapsto> PStr ''j1'', ''strategy'' \<mapsto> PStr ''sma'', ''symbol'' \<mapsto> PStr ''AAPL'']
          lg) =
     [''job_id'' \<mapsto> PStr ''j1'', ''strategy'' \<mapsto> PStr ''sma'', ''symbol'' \<mapsto> PStr ''AAPL'',
      ''status'' \<mapsto> PStr ''completed'',
      ''metrics'' \<mapsto> PDict [''return_pct'' \<mapsto> PFloat 12.4, ''sharpe_ratio'' \<mapsto> PFloat 1.7,
                               ''max_drawdown'' \<mapsto> PFloat (- 4.8)]]"
  by (rule ext) (simp add: run_result job_result_def dict_get_def placeholder_metrics_def
      map_add_def)



text \<open>
  Claim C6. For every input message, the result of \<^verbatim>\<open>run_backtest_job\<close> has \<^verbatim>\<open>status\<close>
  equal to the fixed string \<^verbatim>\<open>"completed"\<close> and \<^verbatim>\<open>metrics\<close> equal to the fixed mapping
  \<^verbatim>\<open>{"return_pct":12.4,"sharpe_ratio":1.7,"max_drawdown":-4.8}\<close>; these values are the same
  for any two inputs.
\<close>

theorem run_backtest_job_constant_outputs:
  "fst (run_backtest_job message lg) ''status'' = Some (PStr ''completed'') \<and>
   fst (run_backtest_job message lg) ''metrics''
     = Some (PDict [''return_pct'' \<mapsto> PFloat 12.4, ''sharpe_ratio'' \<mapsto> PFloat 1.7,
                    ''max_drawdown'' \<mapsto> PFloat (- 4.8)]) \<and>
   fst (run_backtest_job message lg) ''status'' = fst (run_backtest_job message' lg') ''status'' \<and>
   fst (run_backtest_job message lg) ''metrics'' = fst (run_backtest_job message' lg') ''metrics''"
  unfolding run_result_status run_result_metrics placeholder_metrics_def by simp

text \<open>
  Claim C8. \<^verbatim>\<open>run_backtest_job\<close> is deterministic: any two runs on equal input messages
  return equal result mappings. The only state the function touches is the log, which it
  extends and never reads, so the two runs may start from different logs.
\<close>

theorem run_backtest_job_deterministic:
  "message1 = message2 \<Longrightarrow>
     fst (run_backtest_job message1 lg1) = fst (run_backtest_job message2 lg2)"
  by (simp add: run_result)

theorem run_backtest_job_deterministic_witness:
  "fst (run_backtest_job example_message []) =
     fst (run_backtest_job example_message [Debug_validating])"
  using run_backtest_job_deterministic [of example_message example_message "[]" "[Debug_validating]"]
  by simp

text \<open>
  Claim C9. \<^verbatim>\<open>run_backtest_job\<close> is total on its input domain: for every dictionary,
  including the empty one and those missing all of \<^verbatim>\<open>job_id\<close>, \<^verbatim>\<open>strategy\<close> and \<^verbatim>\<open>symbol\<close>,
  it returns a result mapping and raises nothing. The body, run on an arbitrary value, can
  raise (\<open>run_backtest_job_any_raises_on_none\<close>); on every dictionary none of its steps
  does: the outcome is \<open>Inr\<close> of a mapping, never \<open>Inl\<close> of an error, the mapping is the one
  that the typed runner computes, and both records are logged. On the empty dictionary the
  mapping holds the three defaults, the status and the metrics.
\<close>

theorem run_backtest_job_total:
  "(\<exists>result. run_backtest_job_any (PDict message) lg =
       (Inr result,
        lg @ [Info_running (dict_get message ''job_id'' (PStr ''unknown''))
                (dict_get message ''symbol'' (PStr ''UNKNOWN''))
                (dict_get message ''strategy'' (PStr ''unspecified'')),
              Debug_result (dict_get message ''job_id'' (PStr ''unknown''))
                (job_result (dict_get message ''job_id'' (PStr ''unknown''))
                   (dict_get message ''symbol'' (PStr ''UNKNOWN''))
                   (dict_get message ''strategy'' (PStr ''unspecified'')))]) \<and>
       result = fst (run_backtest_job message lg) \<and>
       dom result =
         dom message \<union> {''job_id'', ''symbol'', ''strategy'', ''status'', ''metrics''}) \<and>
   \<not> isl (fst (run_backtest_job_any (PDict message) lg)) \<and>
   fst (run_backtest_job_any (PDict Map.empty) lg) =
     Inr [''job_id'' \<mapsto> PStr ''unknown'', ''symbol'' \<mapsto> PStr ''UNKNOWN'',
          ''strategy'' \<mapsto> PStr ''unspecified'', ''status'' \<mapsto> PStr ''completed'',
          ''metrics'' \<mapsto> PDict placeholder_metrics]"
proof (intro conjI)
  have logged: "snd (run_backtest_job message lg) =
      lg @ [Info_running (dict_get message ''job_id'' (PStr ''unknown''))
              (dict_get message ''symbol'' (PStr ''UNKNOWN''))
              (dict_get message ''strategy'' (PStr ''unspecified'')),
            Debug_result (dict_get message ''job_id'' (PStr ''unknown''))
              (job_result (dict_get message ''job_id'' (PStr ''unknown''))
                 (dict_get message ''symbol'' (PStr ''UNKNOWN''))
                 (dict_get message ''strategy'' (PStr ''unspecified'')))]"
    by (simp add: run_backtest_job_def Let_def)
  show "\<exists>result. run_backtest_job_any (PDict message) lg =
       (Inr result,
        lg @ [Info_running (dict_get message ''job_id'' (PStr ''unknown''))
                (dict_get message ''symbol'' (PStr ''UNKNOWN''))
                (dict_get message ''strategy'' (PStr ''unspecified'')),
              Debug_result (dict_get message ''job_id'' (PStr ''unknown''))
                (job_result (dict_get message ''job_id'' (PStr ''unknown''))
                   (dict_get message ''symbol'' (PStr ''UNKNOWN''))
                   (dict_get message ''strategy'' (PStr ''unspecified'')))]) \<and>
       result = fst (run_backtest_job message lg) \<and>
       dom result =
         dom message \<union> {''job_id'', ''symbol'', ''strategy'', ''status'', ''metrics''}"
    unfolding run_backtest_job_any_dict logged
    using dom_run_result [of message lg] by (intro exI [of _ "fst (run_backtest_job message lg)"] conjI refl)
next
  show "\<not> isl (fst (run_backtest_job_any (PDict message) lg))"
    unfolding run_backtest_job_any_dict by simp
next
  show "fst (run_backtest_job_any (PDict Map.empty) lg) =
     Inr [''job_id'' \<mapsto> PStr ''unknown'', ''symbol'' \<mapsto> PStr ''UNKNOWN'',
          ''strategy'' \<mapsto> PStr ''unspecified'', ''status'' \<mapsto> PStr ''completed'',
          ''metrics'' \<mapsto> PDict placeholder_metrics]"
    unfolding run_backtest_job_any_dict
    by (simp add: run_result job_result_def dict_get_def)
qed

text \<open>
  Claim C10. For every input message and every key of the input other than \<^verbatim>\<open>status\<close> and
  \<^verbatim>\<open>metrics\<close>, the result of \<^verbatim>\<open>run_backtest_job\<close> maps the key to the value that the input
  maps it to; so \<^verbatim>\<open>job_id\<close>, \<^verbatim>\<open>strategy\<close> and \<^verbatim>\<open>symbol\<close>, when present, keep their values.
\<close>

theorem run_backtest_job_preserves_input:
  "k \<in> dom message \<Longrightarrow> k \<noteq> ''status'' \<Longrightarrow> k \<noteq> ''metrics'' \<Longrightarrow>
     fst (run_backtest_job message lg) k = message k"
proof -
  assume present: "k \<in> dom message" and ns: "k \<noteq> ''status''" and nm: "k \<noteq> ''metrics''"
  from present obtain v where v: "message k = Some v"
    by blast
  from run_result_kept [of message k v lg, OF v ns nm] v show ?thesis
    by simp
qed

theorem run_backtest_job_preserves_input_witness:
  "''window'' \<in> dom colliding_message \<and>
   fst (run_backtest_job colliding_message []) ''window'' = Some (PInt 20) \<and>
   ''job_id'' \<in> dom colliding_message \<and>
   fst (run_backtest_job colliding_message []) ''job_id'' = Some (PStr ''j7'')"
proof -
  have w: "''window'' \<in> dom colliding_message" and j: "''job_id'' \<in> dom colliding_message"
    by (simp_all add: colliding_message_def)
  have wv: "colliding_message ''window'' = Some (PInt 20)"
    and jv: "colliding_message ''job_id'' = Some (PStr ''j7'')"
    by (simp_all add: colliding_message_def)
  have "fst (run_backtest_job colliding_message []) ''window'' = colliding_message ''window''"
    by (rule run_backtest_job_preserves_input [OF w]) simp_all
  moreover
  have "fst (run_backtest_job colliding_message []) ''job_id'' = colliding_message ''job_id''"
    by (rule run_backtest_job_preserves_input [OF j]) simp_all
  ultimately show ?thesis
    using w j wv jv by simp
qed

end
